theory Spec2Isabelle
  imports Complex_Main "HOL-Library.Word" "HOL-Library.Sublist"
begin

section \<open>JavaScript values shared by the screens\<close>

text \<open>
  A JavaScript string is a sequence of UTF-16 code units; \<open>slice\<close>, \<open>length\<close> and the
  regular expressions of the application all work on code units. The calculator keys
  \<open>\<div>\<close> (U+00F7), \<open>\<times>\<close> (U+00D7) and the minus sign U+2212 are one code unit each.
\<close>

type_synonym jsstring = "16 word list"

definition js :: "string \<Rightarrow> jsstring" where
  "js s = map of_char s"

text \<open>The regular-expression class \<open>\d\<close>: the ASCII digits; \<open>\D\<close> is its complement.\<close>

definition is_digit :: "16 word \<Rightarrow> bool" where
  "is_digit c \<longleftrightarrow> 0x30 \<le> c \<and> c \<le> 0x39"

text \<open>\<open>s.replace(/\D/g, "")\<close>\<close>

definition onlyDigits :: "jsstring \<Rightarrow> jsstring" where
  "onlyDigits s = filter is_digit s"

text \<open>
  \<open>s.includes(t)\<close>, \<open>s.startsWith(t)\<close>, and the slice \<open>s.slice(2, 9)\<close> that cuts the
  random part of an identifier out of \<open>Math.random().toString(36)\<close>.
\<close>

fun startsWith :: "jsstring \<Rightarrow> jsstring \<Rightarrow> bool" where
  "startsWith s [] \<longleftrightarrow> True"
| "startsWith [] (c # t) \<longleftrightarrow> False"
| "startsWith (d # s) (c # t) \<longleftrightarrow> d = c \<and> startsWith s t"

fun includes_str :: "jsstring \<Rightarrow> jsstring \<Rightarrow> bool" where
  "includes_str [] t \<longleftrightarrow> t = []"
| "includes_str (c # s) t \<longleftrightarrow> startsWith (c # s) t \<or> includes_str s t"

definition slice_2_9 :: "jsstring \<Rightarrow> jsstring" where
  "slice_2_9 s = take 7 (drop 2 s)"

text \<open>
  The values that \<open>JSON.stringify\<close> serialises. Numbers (coordinates, sizes, times) are
  only stored and passed on by the code modelled here, never computed with.
\<close>

datatype json =
    JNull
  | JBool bool
  | JNum real
  | JStr jsstring
  | JArr "json list"
  | JObj "(jsstring \<times> json) list"

text \<open>Whether a value is an object with a property of the given name.\<close>

fun has_field :: "jsstring \<Rightarrow> json \<Rightarrow> bool" where
  "has_field k (JObj kvs) \<longleftrightarrow> k \<in> fst ` set kvs"
| "has_field k _ \<longleftrightarrow> False"

text \<open>
  The entries that the media vault's copy routine pushes on its \<open>debugCollector\<close>:
  \<open>{step}\<close>, \<open>{step, error}\<close> and \<open>{step, r}\<close>.
\<close>

datatype debug_step =
    Step jsstring
  | StepError jsstring jsstring
  | StepResult jsstring json

text \<open>
  A thrown value: an \<open>Error\<close> with its message, or the copy routine's error, which also
  carries the collected steps. \<open>String(e)\<close> of an \<open>Error\<close> with message \<open>m\<close> is
  \<open>"Error: " + m\<close>.
\<close>

datatype js_error =
    JsError (message: jsstring)
  | CopyError (message: jsstring) (err_debugCollector: "debug_step list")

definition String_of_error :: "js_error \<Rightarrow> jsstring" where
  "String_of_error e = js ''Error: '' @ message e"

text \<open>
  Built-ins of the language and the runtime whose results the model takes as given:
  \<open>String.prototype.toLowerCase\<close>, \<open>JSON.stringify(v)\<close>, \<open>JSON.stringify(v, null, 2)\<close>,
  \<open>JSON.parse\<close> (which may throw), the conversion of a number to a string inside a
  template literal, and \<open>encodeURIComponent\<close> (which may throw).
\<close>

record runtime =
  toLowerCase :: "jsstring \<Rightarrow> jsstring"
  JSON_stringify :: "json \<Rightarrow> jsstring"
  JSON_stringify_indented :: "json \<Rightarrow> jsstring"
  JSON_parse :: "jsstring \<Rightarrow> js_error + json"
  Number_toString :: "real \<Rightarrow> jsstring"
  encodeURIComponent :: "jsstring \<Rightarrow> js_error + jsstring"

text \<open>
  What a handler does to the outside world, in program order: the calls it makes to
  \<open>AsyncStorage\<close>, to the file system, the media library, the location service and
  \<open>Linking\<close>, the timers it starts, the alerts it shows and what it logs. An alert
  carries its title, its optional message and its buttons; a button carries the route
  its \<open>onPress\<close> callback replaces the screen with, if it has one.
\<close>

datatype button = Button (label: jsstring) (onPress_replace: "jsstring option")

datatype storage_call =
    GetItem jsstring
  | SetItem jsstring jsstring
  | RemoveItem jsstring
  | MultiSet "(jsstring \<times> jsstring) list"

datatype platform_call =
    CopyAsync jsstring jsstring
  | DownloadAsync jsstring jsstring
  | ReadAsStringAsync jsstring
  | WriteAsStringAsync jsstring jsstring
  | DeleteAsync jsstring
  | RequestMediaPermissions
  | GetAssetsAsync "jsstring option"
  | DeleteAssetsAsync "jsstring list"
  | RequestForegroundPermissions
  | GetCurrentPosition
  | CanOpenURL jsstring
  | OpenURL jsstring
  | SetTimeout nat
  | PromiseRace
  | ClipboardSetString jsstring

datatype effect =
    Haptic
  | Storage storage_call
  | Platform platform_call
  | Alert jsstring "jsstring option" "button list"
  | ConsoleLog jsstring
  | ConsoleWarn jsstring
  | ConsoleError jsstring
  | RouterReplace jsstring
  | UnhandledRejection js_error

text \<open>
  \<open>AsyncStorage\<close>: a persistent map from string keys to string values. The backend is an
  external service; \<open>failure\<close> says whether its calls reject (and with what), and a
  rejected call leaves the stored items as they were.
\<close>

record async_storage =
  items :: "jsstring \<rightharpoonup> jsstring"
  failure :: "js_error option"

definition getItem :: "async_storage \<Rightarrow> jsstring \<Rightarrow> js_error + jsstring option" where
  "getItem st k = (case failure st of Some e \<Rightarrow> Inl e | None \<Rightarrow> Inr (items st k))"

definition removeItem :: "async_storage \<Rightarrow> jsstring \<Rightarrow> js_error + async_storage" where
  "removeItem st k =
     (case failure st of Some e \<Rightarrow> Inl e
      | None \<Rightarrow> Inr (st\<lparr>items := (items st)(k := None)\<rparr>))"

definition setItem :: "async_storage \<Rightarrow> jsstring \<Rightarrow> jsstring \<Rightarrow> js_error + async_storage" where
  "setItem st k v =
     (case failure st of Some e \<Rightarrow> Inl e
      | None \<Rightarrow> Inr (st\<lparr>items := (items st)(k \<mapsto> v)\<rparr>))"

fun multiSet_items :: "(jsstring \<rightharpoonup> jsstring) \<Rightarrow> (jsstring \<times> jsstring) list \<Rightarrow> (jsstring \<rightharpoonup> jsstring)" where
  "multiSet_items m [] = m"
| "multiSet_items m ((k, v) # kvs) = multiSet_items (m(k \<mapsto> v)) kvs"

definition multiSet :: "async_storage \<Rightarrow> (jsstring \<times> jsstring) list \<Rightarrow> js_error + async_storage" where
  "multiSet st kvs =
     (case failure st of Some e \<Rightarrow> Inl e
      | None \<Rightarrow> Inr (st\<lparr>items := multiSet_items (items st) kvs\<rparr>))"

text \<open>
  Every screen runs against the storage and leaves a trace of effects; a screen's own
  state (its \<open>useState\<close> cells) extends this record.
\<close>

record world =
  storage :: async_storage
  trace :: "effect list"

definition emit :: "effect \<Rightarrow> 'a world_scheme \<Rightarrow> 'a world_scheme" where
  "emit e w = w\<lparr>trace := trace w @ [e]\<rparr>"

text \<open>The routes a run has navigated to, in order.\<close>

fun navigations :: "effect list \<Rightarrow> jsstring list" where
  "navigations [] = []"
| "navigations (RouterReplace r # es) = r # navigations es"
| "navigations (_ # es) = navigations es"

section \<open>The calculator screen (app/calculator.tsx)\<close>

record calculator = world +
  expression :: jsstring
  input :: jsstring

definition initial_calculator :: "async_storage \<Rightarrow> calculator" where
  "initial_calculator st = \<lparr>storage = st, trace = [], expression = [], input = []\<rparr>"

text \<open>\<open>const operators = ["\<div>", "\<times>", "\<minus>", "/", "*", "-", "+"]\<close>\<close>

definition operators :: "jsstring list" where
  "operators = [[0xF7], [0xD7], [0x2212], js ''/'', js ''*'', js ''-'', js ''+'']"

text \<open>\<open>expression.slice(-1)\<close>: the last code unit as a string, empty on the empty string.\<close>

definition slice_last :: "jsstring \<Rightarrow> jsstring" where
  "slice_last s = (if s = [] then [] else [last s])"

text \<open>
  \<open>evaluateExpression\<close>: the display operators are replaced by their ASCII forms, a
  trailing run of \<open>+ - * /\<close> is removed, and the text is handed to JavaScript's \<open>eval\<close>.
  \<open>eval(expr).toString()\<close> is a parameter \<open>ev\<close> of the model (\<open>Inl\<close> when it throws).
\<close>

definition to_ascii_operator :: "16 word \<Rightarrow> 16 word" where
  "to_ascii_operator c =
     (if c = 0xF7 then 0x2F else if c = 0xD7 then 0x2A else if c = 0x2212 then 0x2D else c)"

definition is_ascii_operator :: "16 word \<Rightarrow> bool" where
  "is_ascii_operator c \<longleftrightarrow> c = 0x2B \<or> c = 0x2D \<or> c = 0x2A \<or> c = 0x2F"

definition strip_trailing_operators :: "jsstring \<Rightarrow> jsstring" where
  "strip_trailing_operators s = rev (dropWhile is_ascii_operator (rev s))"

definition evaluateExpression :: "(jsstring \<Rightarrow> js_error + jsstring) \<Rightarrow> calculator \<Rightarrow> calculator" where
  "evaluateExpression ev w =
     (let expr = strip_trailing_operators (map to_ascii_operator (expression w))
      in case ev expr of
           Inr result \<Rightarrow> w\<lparr>expression := result, input := result\<rparr>
         | Inl e \<Rightarrow> (emit (Alert (js ''Invalid Expression'') None []) w)\<lparr>expression := [], input := []\<rparr>)"

text \<open>The expression \<open>handlePress\<close> stores for a key other than \<open>=\<close> and \<open>C\<close>.\<close>

definition newExp :: "jsstring \<Rightarrow> jsstring \<Rightarrow> jsstring" where
  "newExp e val =
     (if val \<in> set operators \<and> slice_last e \<in> set operators then butlast e @ val else e @ val)"

text \<open>
  \<open>handlePress(val)\<close>. The two storage calls are awaited outside any \<open>try\<close>: when one
  rejects, the handler's promise rejects and nothing after the call runs.
\<close>

definition handlePress :: "(jsstring \<Rightarrow> js_error + jsstring) \<Rightarrow> jsstring \<Rightarrow> calculator \<Rightarrow> calculator" where
  "handlePress ev val w0 =
     (let w = emit Haptic w0 in
      if val = js ''='' then evaluateExpression ev w
      else if val = js ''C'' then
        (let n = butlast (expression w) in w\<lparr>expression := n, input := n\<rparr>)
      else
        (let n = newExp (expression w) val;
             w1 = w\<lparr>expression := n, input := n\<rparr>;
             digits = onlyDigits n
         in if length digits = 6 then
              (if digits = js ''000000'' then
                 (let w2 = emit (Storage (RemoveItem (js ''userPin''))) w1 in
                  case removeItem (storage w2) (js ''userPin'') of
                    Inl e \<Rightarrow> emit (UnhandledRejection e) w2
                  | Inr st \<Rightarrow>
                      emit (RouterReplace (js ''/register''))
                        (emit (Alert (js ''PIN Reset'') (Some (js ''Register new PIN'')) [])
                          (w2\<lparr>storage := st\<rparr>)))
               else
                 (let w2 = emit (Storage (GetItem (js ''userPin''))) w1 in
                  case getItem (storage w2) (js ''userPin'') of
                    Inl e \<Rightarrow> emit (UnhandledRejection e) w2
                  | Inr stored \<Rightarrow>
                      (case stored of
                         None \<Rightarrow> w2
                       | Some s \<Rightarrow>
                           if s \<noteq> [] \<and> digits = s then emit (RouterReplace (js ''/home'')) w2
                           else w2)))
            else w1))"

text \<open>A sequence of key presses, each handled after the previous one has finished.\<close>

definition presses :: "(jsstring \<Rightarrow> js_error + jsstring) \<Rightarrow> jsstring list \<Rightarrow> calculator \<Rightarrow> calculator" where
  "presses ev vals w = fold (handlePress ev) vals w"

text \<open>The sixteen keys of the pad, row by row.\<close>

definition buttons :: "jsstring list" where
  "buttons =
     [js ''7'', js ''8'', js ''9'', [0xF7],
      js ''4'', js ''5'', js ''6'', [0xD7],
      js ''1'', js ''2'', js ''3'', [0x2212],
      js ''0'', js ''C'', js ''='', js ''+'']"

text \<open>Two neighbouring code units of the expression that are both operator characters.\<close>

definition is_operator_char :: "16 word \<Rightarrow> bool" where
  "is_operator_char c \<longleftrightarrow> [c] \<in> set operators"

fun adjacent_operators :: "jsstring \<Rightarrow> bool" where
  "adjacent_operators (a # b # s) \<longleftrightarrow> (is_operator_char a \<and> is_operator_char b) \<or> adjacent_operators (b # s)"
| "adjacent_operators _ \<longleftrightarrow> False"

text \<open>Typing a string on the pad: one key press per code unit.\<close>

definition keys_of :: "jsstring \<Rightarrow> jsstring list" where
  "keys_of s = map (\<lambda>c. [c]) s"

section \<open>The registration screen (RegisterScreen.js)\<close>

text \<open>
  \<open>String.prototype.trim\<close> and \<open>Number\<close> skip the code units of \<open>WhiteSpace\<close> and
  \<open>LineTerminator\<close>: TAB, LF, VT, FF, CR, SP, NBSP, U+1680, U+2000 to U+200A, U+2028,
  U+2029, U+202F, U+205F, U+3000 and U+FEFF.
\<close>

definition is_whitespace :: "16 word \<Rightarrow> bool" where
  "is_whitespace c \<longleftrightarrow>
     (0x09 \<le> c \<and> c \<le> 0x0D) \<or> c = 0x20 \<or> c = 0xA0 \<or> c = 0x1680 \<or>
     (0x2000 \<le> c \<and> c \<le> 0x200A) \<or> c = 0x2028 \<or> c = 0x2029 \<or> c = 0x202F \<or>
     c = 0x205F \<or> c = 0x3000 \<or> c = 0xFEFF"

definition trim :: "jsstring \<Rightarrow> jsstring" where
  "trim s = rev (dropWhile is_whitespace (rev (dropWhile is_whitespace s)))"

text \<open>
  \<open>isNaN(Number(s))\<close> for a string \<open>s\<close>: \<open>Number\<close> yields \<open>NaN\<close> exactly when the
  trimmed string is neither empty nor a \<open>StrNumericLiteral\<close> of the language
  (a signed decimal literal with optional fraction and exponent, \<open>Infinity\<close>, or an
  unsigned binary, octal or hexadecimal integer literal).
\<close>

definition DecimalDigits :: "jsstring \<Rightarrow> bool" where
  "DecimalDigits s \<longleftrightarrow> s \<noteq> [] \<and> list_all is_digit s"

definition SignedInteger :: "jsstring \<Rightarrow> bool" where
  "SignedInteger s =
     (case s of
        [] \<Rightarrow> False
      | c # t \<Rightarrow> if c = 0x2B \<or> c = 0x2D then DecimalDigits t else DecimalDigits s)"

definition ExponentPart_opt :: "jsstring \<Rightarrow> bool" where
  "ExponentPart_opt s =
     (case s of
        [] \<Rightarrow> True
      | c # t \<Rightarrow> (c = 0x65 \<or> c = 0x45) \<and> SignedInteger t)"

definition StrUnsignedDecimalLiteral :: "jsstring \<Rightarrow> bool" where
  "StrUnsignedDecimalLiteral s \<longleftrightarrow>
     s = js ''Infinity'' \<or>
     (let ds = takeWhile is_digit s; rest = dropWhile is_digit s in
      case rest of
        [] \<Rightarrow> ds \<noteq> []
      | c # r \<Rightarrow>
          if c = 0x2E then
            (if ds \<noteq> [] then ExponentPart_opt (dropWhile is_digit r)
             else takeWhile is_digit r \<noteq> [] \<and> ExponentPart_opt (dropWhile is_digit r))
          else ds \<noteq> [] \<and> ExponentPart_opt rest)"

definition StrDecimalLiteral :: "jsstring \<Rightarrow> bool" where
  "StrDecimalLiteral s =
     (case s of
        [] \<Rightarrow> False
      | c # t \<Rightarrow>
          if c = 0x2B \<or> c = 0x2D then StrUnsignedDecimalLiteral t
          else StrUnsignedDecimalLiteral s)"

definition is_hex_digit :: "16 word \<Rightarrow> bool" where
  "is_hex_digit c \<longleftrightarrow> is_digit c \<or> (0x41 \<le> c \<and> c \<le> 0x46) \<or> (0x61 \<le> c \<and> c \<le> 0x66)"

definition NonDecimalIntegerLiteral :: "jsstring \<Rightarrow> bool" where
  "NonDecimalIntegerLiteral s =
     (case s of
        z # x # t \<Rightarrow>
          z = 0x30 \<and> t \<noteq> [] \<and>
          (((x = 0x62 \<or> x = 0x42) \<and> list_all (\<lambda>c. c = 0x30 \<or> c = 0x31) t) \<or>
           ((x = 0x6F \<or> x = 0x4F) \<and> list_all (\<lambda>c. 0x30 \<le> c \<and> c \<le> 0x37) t) \<or>
           ((x = 0x78 \<or> x = 0x58) \<and> list_all is_hex_digit t))
      | _ \<Rightarrow> False)"

definition isNaN_Number :: "jsstring \<Rightarrow> bool" where
  "isNaN_Number s =
     (let t = trim s in t \<noteq> [] \<and> \<not> (StrDecimalLiteral t \<or> NonDecimalIntegerLiteral t))"

record register_screen = world +
  username :: jsstring
  rawPin :: jsstring

text \<open>\<open>onPinChange(text)\<close>: the PIN field keeps the first six digits of what is typed.\<close>

definition onPinChange :: "jsstring \<Rightarrow> register_screen \<Rightarrow> register_screen" where
  "onPinChange text w = w\<lparr>rawPin := take 6 (onlyDigits text)\<rparr>"

definition setUsername :: "jsstring \<Rightarrow> register_screen \<Rightarrow> register_screen" where
  "setUsername text w = w\<lparr>username := text\<rparr>"

definition handleRegister :: "register_screen \<Rightarrow> register_screen" where
  "handleRegister w =
     (if trim (username w) = [] then
        emit (Alert (js ''Username required'') (Some (js ''Please enter a username.'')) []) w
      else if length (rawPin w) \<noteq> 6 \<or> isNaN_Number (rawPin w) then
        emit (Alert (js ''Invalid PIN'') (Some (js ''PIN must be a 6-digit number.'')) []) w
      else if rawPin w = js ''000000'' then
        emit (Alert (js ''Invalid PIN'')
               (Some (js ''000000 is reserved. Please choose another PIN.'')) []) w
      else
        (let kvs = [(js ''userPin'', rawPin w), (js ''isRegistered'', js ''true'')];
             w1 = emit (Storage (MultiSet kvs)) w
         in case multiSet (storage w1) kvs of
              Inr st \<Rightarrow>
                emit (Alert (0x2705 # js '' Success'') (Some (js ''Account created!''))
                        [Button (js ''OK'') (Some (js ''/calculator''))])
                  (w1\<lparr>storage := st\<rparr>)
            | Inl e \<Rightarrow>
                emit (Alert (0x274C # js '' Error'') (Some (js ''Failed to save details. Try again.'')) [])
                  (emit (ConsoleError (js ''Error saving data:'')) w1)))"

text \<open>The calls to \<open>AsyncStorage\<close> that write, among the effects of a run.\<close>

fun storage_writes :: "effect list \<Rightarrow> storage_call list" where
  "storage_writes [] = []"
| "storage_writes (Storage (GetItem k) # es) = storage_writes es"
| "storage_writes (Storage c # es) = c # storage_writes es"
| "storage_writes (_ # es) = storage_writes es"

fun alerts :: "effect list \<Rightarrow> effect list" where
  "alerts [] = []"
| "alerts (Alert t m b # es) = Alert t m b # alerts es"
| "alerts (_ # es) = alerts es"

section \<open>The private media vault (PrivateMediaSaver.js)\<close>

definition FILES_META_KEY :: jsstring where
  "FILES_META_KEY = js ''@saved_media_meta_v_final''"

definition ALLOWED_MIME_PREFIX :: "jsstring list" where
  "ALLOWED_MIME_PREFIX = [js ''image/'', js ''video/'', js ''audio/'']"

definition ALLOWED_EXT :: "jsstring list" where
  "ALLOWED_EXT =
     [js ''.jpg'', js ''.jpeg'', js ''.png'', js ''.webp'', js ''.gif'',
      js ''.mp4'', js ''.mov'', js ''.m4v'', js ''.mkv'',
      js ''.mp3'', js ''.m4a'', js ''.wav'', js ''.aac'']"

text \<open>\<open>randomId(prefix)\<close>, with the string \<open>Math.random().toString(36)\<close> as \<open>rnd\<close>.\<close>

definition randomId :: "jsstring \<Rightarrow> jsstring \<Rightarrow> jsstring" where
  "randomId rnd prefix' = prefix' @ slice_2_9 rnd"

text \<open>\<open>s.split(c).pop()\<close>: what follows the last \<open>c\<close> of \<open>s\<close> (all of \<open>s\<close> without a \<open>c\<close>).\<close>

definition after_last :: "16 word \<Rightarrow> jsstring \<Rightarrow> jsstring" where
  "after_last c s = rev (takeWhile (\<lambda>d. d \<noteq> c) (rev s))"

text \<open>\<open>getExtFromName(name)\<close>; a missing name is the empty string here.\<close>

definition getExtFromName :: "runtime \<Rightarrow> jsstring \<Rightarrow> jsstring" where
  "getExtFromName rt name =
     (if name = [] \<or> 0x2E \<notin> set name then []
      else 0x2E # toLowerCase rt (after_last 0x2E name))"

text \<open>
  The file system, the media library and the clipboard are services of the device.
  Each field answers one of their calls: an error when the call rejects, its result
  otherwise.
\<close>

record asset =
  asset_id :: jsstring
  filename :: jsstring
  localUri :: "jsstring option"

record assets_page =
  assets :: "asset list"
  hasNextPage :: bool

record media_services =
  documentDirectory :: jsstring
  copyAsync :: "jsstring \<Rightarrow> jsstring \<Rightarrow> js_error option"
  downloadAsync :: "jsstring \<Rightarrow> jsstring \<Rightarrow> js_error + json"
  readAsStringAsync :: "jsstring \<Rightarrow> js_error + jsstring"
  writeAsStringAsync :: "jsstring \<Rightarrow> jsstring \<Rightarrow> js_error option"
  deleteAsync :: "jsstring \<Rightarrow> js_error option"
  requestPermissionsAsync :: "js_error + jsstring"
  getAssetsAsync :: "jsstring option \<Rightarrow> js_error + assets_page"
  deleteAssetsAsync :: "jsstring list \<Rightarrow> js_error option"
  setStringAsync :: "jsstring \<Rightarrow> js_error option"

text \<open>The predicate of \<open>assets.find\<close> in \<open>tryDeleteOriginal\<close>.\<close>

definition asset_matches :: "jsstring \<Rightarrow> jsstring \<Rightarrow> asset \<Rightarrow> bool" where
  "asset_matches uri nameHint a \<longleftrightarrow>
     (case localUri a of Some l \<Rightarrow> l \<noteq> [] \<and> uri \<noteq> [] \<and> l = uri | None \<Rightarrow> False) \<or>
     (filename a \<noteq> [] \<and> nameHint \<noteq> [] \<and> filename a = nameHint) \<or>
     (case localUri a of Some l \<Rightarrow> l \<noteq> [] \<and> nameHint \<noteq> [] \<and> includes_str l nameHint
      | None \<Rightarrow> False)"

text \<open>
  The page loop of \<open>tryDeleteOriginal\<close>, \<open>for (page = 0; page < 8; page++)\<close>, by the
  number of pages still allowed. It ends by \<open>return true\<close> after a deletion, by leaving
  the loop (no assets, a failed deletion, no next page, no cursor, eight pages done), or
  by an exception of \<open>getAssetsAsync\<close>.
\<close>

datatype scan_exit = Deleted | Finished | Threw js_error

fun scan_pages :: "media_services \<Rightarrow> jsstring \<Rightarrow> jsstring \<Rightarrow> nat \<Rightarrow> jsstring option \<Rightarrow> scan_exit \<times> effect list" where
  "scan_pages ms uri nameHint 0 after = (Finished, [])"
| "scan_pages ms uri nameHint (Suc n) after =
     (case getAssetsAsync ms after of
        Inl e \<Rightarrow> (Threw e, [Platform (GetAssetsAsync after)])
      | Inr fetch \<Rightarrow>
          if assets fetch = [] then (Finished, [Platform (GetAssetsAsync after)])
          else
            (case find (asset_matches uri nameHint) (assets fetch) of
               Some m \<Rightarrow>
                 (case deleteAssetsAsync ms [asset_id m] of
                    None \<Rightarrow> (Deleted, [Platform (GetAssetsAsync after),
                                        Platform (DeleteAssetsAsync [asset_id m])])
                  | Some e \<Rightarrow> (Finished, [Platform (GetAssetsAsync after),
                                         Platform (DeleteAssetsAsync [asset_id m]),
                                         ConsoleWarn (js ''MediaLibrary.deleteAssetsAsync failed'')]))
             | None \<Rightarrow>
                 if \<not> hasNextPage fetch then (Finished, [Platform (GetAssetsAsync after)])
                 else if asset_id (last (assets fetch)) = [] then
                   (Finished, [Platform (GetAssetsAsync after)])
                 else
                   (let r = scan_pages ms uri nameHint n (Some (asset_id (last (assets fetch))))
                    in (fst r, Platform (GetAssetsAsync after) # snd r))))"

text \<open>Step 2 of \<open>tryDeleteOriginal\<close>: the attempt through the media library.\<close>

definition media_library_delete :: "media_services \<Rightarrow> jsstring \<Rightarrow> jsstring \<Rightarrow> bool \<times> effect list" where
  "media_library_delete ms uri nameHint =
     (case requestPermissionsAsync ms of
        Inl e \<Rightarrow> (False, [Platform RequestMediaPermissions,
                          ConsoleWarn (js ''MediaLibrary deletion attempt failed'')])
      | Inr status \<Rightarrow>
          if status = js ''granted'' then
            (case scan_pages ms uri nameHint 8 None of
               (Deleted, es) \<Rightarrow> (True, Platform RequestMediaPermissions # es)
             | (Finished, es) \<Rightarrow> (False, Platform RequestMediaPermissions # es)
             | (Threw e, es) \<Rightarrow>
                 (False, Platform RequestMediaPermissions # es @
                           [ConsoleWarn (js ''MediaLibrary deletion attempt failed'')]))
          else (False, [Platform RequestMediaPermissions,
                        ConsoleWarn (js ''MediaLibrary permission not granted:'')]))"

text \<open>
  \<open>tryDeleteOriginal(uri, nameHint)\<close>: whether the original was deleted, and what was
  done. Every call that can reject sits in a \<open>try\<close> of its own, so the function never
  throws; each failed step is logged and the next step is tried.
\<close>

definition tryDeleteOriginal :: "media_services \<Rightarrow> jsstring \<Rightarrow> jsstring \<Rightarrow> bool \<times> effect list" where
  "tryDeleteOriginal ms uri nameHint =
     (if uri = [] then (False, [])
      else
        (let step1 =
               (if startsWith uri (js ''file://'') then
                  (case deleteAsync ms (drop 7 uri) of
                     None \<Rightarrow> (True, [Platform (DeleteAsync (drop 7 uri))])
                   | Some e \<Rightarrow> (False, [Platform (DeleteAsync (drop 7 uri)),
                                        ConsoleWarn (js ''file:// delete failed'')]))
                else (False, []))
         in if fst step1 then step1
            else
              (let step2 = media_library_delete ms uri nameHint
               in if fst step2 then (True, snd step1 @ snd step2)
                  else
                    (case deleteAsync ms uri of
                       None \<Rightarrow> (True, snd step1 @ snd step2 @ [Platform (DeleteAsync uri)])
                     | Some e \<Rightarrow>
                         (False, snd step1 @ snd step2 @
                                   [Platform (DeleteAsync uri),
                                    ConsoleWarn (js ''FileSystem.deleteAsync fallback failed'')])))))"

text \<open>
  \<open>copyToAppStorageAndRemoveOriginal(uri, name, debugCollector)\<close>: the result or the
  thrown error, and what was done.
\<close>

record copy_result =
  dest :: jsstring
  deleted :: bool
  debug_steps :: "debug_step list"

definition copy_dest :: "runtime \<Rightarrow> media_services \<Rightarrow> jsstring \<Rightarrow> jsstring \<Rightarrow> jsstring" where
  "copy_dest rt ms rnd name =
     documentDirectory ms @ randomId rnd (js ''media-'') @ getExtFromName rt name"

definition copy_succeeded :: "media_services \<Rightarrow> jsstring \<Rightarrow> jsstring \<Rightarrow> jsstring \<Rightarrow> debug_step list \<Rightarrow> effect list \<Rightarrow> (js_error + copy_result) \<times> effect list" where
  "copy_succeeded ms uri name d dc es =
     (let r = tryDeleteOriginal ms uri name
      in (Inr \<lparr>dest = d, deleted = fst r, debug_steps = dc\<rparr>, es @ snd r))"

definition copyToAppStorageAndRemoveOriginal :: "runtime \<Rightarrow> media_services \<Rightarrow> jsstring \<Rightarrow> jsstring \<Rightarrow> jsstring \<Rightarrow> debug_step list \<Rightarrow> (js_error + copy_result) \<times> effect list" where
  "copyToAppStorageAndRemoveOriginal rt ms rnd uri name debugCollector =
     (let d = copy_dest rt ms rnd name in
      case copyAsync ms uri d of
        None \<Rightarrow>
          copy_succeeded ms uri name d (debugCollector @ [Step (js ''copyAsync success'')])
            [Platform (CopyAsync uri d)]
      | Some e1 \<Rightarrow>
          (let dc1 = debugCollector @ [StepError (js ''copyAsync failed'') (String_of_error e1)];
               es1 = [Platform (CopyAsync uri d), ConsoleWarn (js ''copyAsync failed'')]
           in case downloadAsync ms uri d of
                Inr r \<Rightarrow>
                  copy_succeeded ms uri name d (dc1 @ [StepResult (js ''downloadAsync result'') r])
                    (es1 @ [Platform (DownloadAsync uri d)])
              | Inl e2 \<Rightarrow>
                  (let dc2 = dc1 @ [StepError (js ''downloadAsync failed'') (String_of_error e2)];
                       es2 = es1 @ [Platform (DownloadAsync uri d), ConsoleWarn (js ''downloadAsync failed'')];
                       failed = (\<lambda>e3 es3.
                          (Inl (CopyError
                                  (js ''Unable to copy file into app storage (provider restriction). See debugCollector for steps.'')
                                  (dc2 @ [StepError (js ''base64 fallback failed'') (String_of_error e3)])),
                           es2 @ es3 @ [ConsoleWarn (js ''base64 fallback failed'')]))
                   in case readAsStringAsync ms uri of
                        Inl e3 \<Rightarrow> failed e3 [Platform (ReadAsStringAsync uri)]
                      | Inr base64 \<Rightarrow>
                          (case writeAsStringAsync ms d base64 of
                             Some e3 \<Rightarrow>
                               failed e3 [Platform (ReadAsStringAsync uri),
                                          Platform (WriteAsStringAsync d base64)]
                           | None \<Rightarrow>
                               copy_succeeded ms uri name d
                                 (dc2 @ [Step (js ''base64 read/write success'')])
                                 (es2 @ [Platform (ReadAsStringAsync uri),
                                         Platform (WriteAsStringAsync d base64)])))))"



text \<open>
  The vault screen. \<open>files\<close> is the list of metadata objects shown and persisted under
  \<open>FILES_META_KEY\<close>.
\<close>

record media_vault = world +
  files :: "json list"

text \<open>What \<open>JSON.stringify\<close> sees of a debug entry.\<close>

fun debug_step_json :: "debug_step \<Rightarrow> json" where
  "debug_step_json (Step s) = JObj [(js ''step'', JStr s)]"
| "debug_step_json (StepError s e) = JObj [(js ''step'', JStr s), (js ''error'', JStr e)]"
| "debug_step_json (StepResult s r) = JObj [(js ''step'', JStr s), (js ''r'', r)]"

text \<open>\<open>err.debugCollector || []\<close> and \<open>err.message || String(err)\<close>\<close>

fun debugCollector_or_empty :: "js_error \<Rightarrow> debug_step list" where
  "debugCollector_or_empty (CopyError m dc) = dc"
| "debugCollector_or_empty (JsError m) = []"

definition message_or_String :: "js_error \<Rightarrow> jsstring" where
  "message_or_String e = (if message e \<noteq> [] then message e else String_of_error e)"

text \<open>An optional property of an object literal: \<open>undefined\<close> is left out by \<open>JSON.stringify\<close>.\<close>

definition optional_field :: "jsstring \<Rightarrow> json option \<Rightarrow> (jsstring \<times> json) list" where
  "optional_field k v = (case v of None \<Rightarrow> [] | Some j \<Rightarrow> [(k, j)])"

text \<open>
  The \<open>catch\<close> branch of \<open>handlePickedFile\<close>: log, copy the debug object to the
  clipboard (a failure of the clipboard is ignored), alert.
\<close>

definition save_failed :: "runtime \<Rightarrow> media_services \<Rightarrow> jsstring \<Rightarrow> jsstring option \<Rightarrow> real option \<Rightarrow> jsstring option \<Rightarrow> js_error \<Rightarrow> media_vault \<Rightarrow> media_vault" where
  "save_failed rt ms uri name size' mimeType err w =
     (let small = JObj ([(js ''uri'', JStr uri)] @
                        optional_field (js ''name'') (map_option JStr name) @
                        optional_field (js ''mimeType'') (map_option JStr mimeType) @
                        optional_field (js ''size'') (map_option JNum size') @
                        [(js ''debugCollector'', JArr (map debug_step_json (debugCollector_or_empty err))),
                         (js ''message'', JStr (message_or_String err))])
      in emit (Alert (js ''Save failed'')
                 (Some (js ''Could not copy file into app storage. Debug info copied to clipboard '' @
                        [0x2014] @ js '' paste it here so I can patch the provider.'')) [])
           (emit (Platform (ClipboardSetString (JSON_stringify_indented rt small)))
              (emit (ConsoleWarn (js ''final copy failed'')) w)))"

text \<open>A string that counts as true: present and not empty.\<close>

definition truthy :: "jsstring option \<Rightarrow> bool" where
  "truthy s \<longleftrightarrow> s \<noteq> None \<and> s \<noteq> Some []"

text \<open>
  The metadata object of a saved file. \<open>rnd\<close> is \<open>Math.random().toString(36)\<close> of the
  call of \<open>randomId('m-')\<close>, \<open>now\<close> is \<open>Date.now()\<close>.
\<close>

definition file_meta :: "jsstring \<Rightarrow> real \<Rightarrow> jsstring option \<Rightarrow> real option \<Rightarrow> copy_result \<Rightarrow> json" where
  "file_meta rnd now name size' result =
     JObj [(js ''id'', JStr (randomId rnd (js ''m-''))),
           (js ''originalName'', JStr (if truthy name then the name else after_last 0x2F (dest result))),
           (js ''storedPath'', JStr (dest result)),
           (js ''size'', JNum (case size' of None \<Rightarrow> 0 | Some z \<Rightarrow> z)),
           (js ''savedAt'', JNum now),
           (js ''deletedOriginal'', JBool (deleted result))]"

text \<open>
  \<open>handlePickedFile({ uri, name, size, mimeType })\<close>. \<open>rnd1\<close> and \<open>rnd2\<close> are the random
  strings of the two calls of \<open>randomId\<close>. \<open>persistFiles\<close> sets the state before it
  writes, and its write is inside the \<open>try\<close> of the copy.
\<close>

definition handlePickedFile :: "runtime \<Rightarrow> media_services \<Rightarrow> jsstring \<Rightarrow> jsstring \<Rightarrow> real \<Rightarrow> jsstring \<Rightarrow> jsstring option \<Rightarrow> real option \<Rightarrow> jsstring option \<Rightarrow> media_vault \<Rightarrow> media_vault" where
  "handlePickedFile rt ms rnd1 rnd2 now uri name size' mimeType w =
     (let w0 = emit (ConsoleLog (js ''PICKED OBJECT:'')) w;
          allowedByMime = (truthy mimeType \<and> list_ex (startsWith (the mimeType)) ALLOWED_MIME_PREFIX);
          ext = getExtFromName rt (if truthy name then the name else uri);
          allowedByExt = (ext \<noteq> [] \<and> ext \<in> set ALLOWED_EXT)
      in if \<not> allowedByMime \<and> \<not> allowedByExt then
           emit (Alert (js ''Unsupported file'')
                   (Some (js ''Only images, videos, and audio files are allowed.'')) []) w0
         else
           (let copied = copyToAppStorageAndRemoveOriginal rt ms rnd1 uri
                           (if truthy name then the name else js ''media'' @ ext) [];
                w1 = w0\<lparr>trace := trace w0 @ snd copied\<rparr>
            in case fst copied of
                 Inl err \<Rightarrow> save_failed rt ms uri name size' mimeType err w1
               | Inr result \<Rightarrow>
                   (let meta = file_meta rnd2 now name size' result;
                        next = meta # files w1;
                        w2 = w1\<lparr>files := next\<rparr>;
                        text = JSON_stringify rt (JArr next);
                        w3 = emit (Storage (SetItem FILES_META_KEY text)) w2
                    in case setItem (storage w3) FILES_META_KEY text of
                         Inl err \<Rightarrow> save_failed rt ms uri name size' mimeType err w3
                       | Inr st \<Rightarrow>
                           emit (Alert (js ''Saved'')
                                   (Some ((if truthy name then the name else after_last 0x2F (dest result)) @
                                          js '' saved to app vault.'' @
                                          (if deleted result then js '' Original removed.''
                                           else js '' Original could not be removed.''))) [])
                             (w3\<lparr>storage := st\<rparr>))))"

section \<open>The SOS screen (app/sosdial.tsx)\<close>

text \<open>\<open>type Contact = { id; name; number; builtIn? }\<close>\<close>

record contact =
  id' :: jsstring
  name :: jsstring
  number :: jsstring
  builtIn :: "bool option"

definition STORAGE_KEY :: jsstring where
  "STORAGE_KEY = js ''@sos_custom_contacts_v1''"


text \<open>
  \<open>uid(prefix)\<close> is \<open>prefix + Math.random().toString(36).slice(2, 9)\<close>; the string
  \<open>Math.random().toString(36)\<close> of the call is the argument \<open>rnd\<close>.
\<close>

definition uid :: "jsstring \<Rightarrow> jsstring \<Rightarrow> jsstring" where
  "uid rnd prefix' = prefix' @ slice_2_9 rnd"

definition sanitizeNumber :: "jsstring \<Rightarrow> jsstring" where
  "sanitizeNumber n = trim n"

definition isValidPhone :: "jsstring \<Rightarrow> bool" where
  "isValidPhone n \<longleftrightarrow> length (onlyDigits n) \<ge> 5"

text \<open>What \<open>JSON.stringify\<close> sees of a contact: an absent \<open>builtIn\<close> is no property.\<close>

definition contact_json :: "contact \<Rightarrow> json" where
  "contact_json c =
     JObj ([(js ''id'', JStr (id' c)), (js ''name'', JStr (name c)), (js ''number'', JStr (number c))] @
           (case builtIn c of None \<Rightarrow> [] | Some b \<Rightarrow> [(js ''builtIn'', JBool b)]))"

text \<open>
  The state cells of the screen. \<open>editMode\<close> is \<open>null\<close> or \<open>{ editId }\<close>; the list shown
  by the \<open>FlatList\<close> is \<open>all\<close>.
\<close>

record sosdial = world +
  custom :: "contact list"
  all' :: "contact list"
  modalVisible :: bool
  editMode :: "jsstring option"
  formName :: jsstring
  formNumber :: jsstring



text \<open>
  \<open>persist(next)\<close>: the state is set first, then the list is written; a rejected write
  is caught and logged, nothing else.
\<close>

definition persist :: "runtime \<Rightarrow> contact list \<Rightarrow> sosdial \<Rightarrow> sosdial" where
  "persist rt next w =
     (let w1 = w\<lparr>custom := next\<rparr>;
          text = JSON_stringify rt (JArr (map contact_json next));
          w2 = emit (Storage (SetItem STORAGE_KEY text)) w1
      in case setItem (storage w2) STORAGE_KEY text of
           Inr st \<Rightarrow> w2\<lparr>storage := st\<rparr>
         | Inl e \<Rightarrow> emit (ConsoleWarn (js ''Failed to save custom contacts'')) w2)"

definition onSubmitForm :: "runtime \<Rightarrow> jsstring \<Rightarrow> sosdial \<Rightarrow> sosdial" where
  "onSubmitForm rt rnd w =
     (let name = trim (formName w); number = sanitizeNumber (formNumber w) in
      if name = [] then
        emit (Alert (js ''Validation'') (Some (js ''Please enter a name for the contact.'')) []) w
      else if \<not> isValidPhone number then
        emit (Alert (js ''Validation'')
               (Some (js ''Please enter a valid phone number (at least 5 digits).'')) []) w
      else if editMode w \<noteq> None \<and> editMode w \<noteq> Some [] then
        (let next = map (\<lambda>c. if Some (id' c) = editMode w then c\<lparr>name := name, number := number\<rparr> else c)
                      (custom w)
         in (persist rt next w)\<lparr>modalVisible := False, editMode := None\<rparr>)
      else
        (let newC = \<lparr>id' = uid rnd (js ''c-''), name = name, number = number, builtIn = None\<rparr>
         in (persist rt (newC # custom w) w)\<lparr>modalVisible := False\<rparr>))"



section \<open>The hidden notes screen (HiddenNotes)\<close>

text \<open>
  The subscription: \<open>query(collection(db, 'hidden_notes'), orderBy('createdAt', 'desc'))\<close>.
  The document store is a remote service; what the screen receives is the list of
  documents of a snapshot, in the order the service delivers them.
\<close>

datatype direction = Asc | Desc

record firestore_query =
  collection_path :: jsstring
  orderBy_field :: jsstring
  orderBy_direction :: direction

definition qRef :: firestore_query where
  "qRef = \<lparr>collection_path = js ''hidden_notes'', orderBy_field = js ''createdAt'',
           orderBy_direction = Desc\<rparr>"

text \<open>
  A note as the screen reads it: the document id, \<open>content\<close> (which may be missing),
  the creation time and the \<open>pinned\<close> flag, read for its truth value.
\<close>

record note_doc =
  note_id :: jsstring
  content :: "jsstring option"
  createdAt :: int
  pinned :: bool

text \<open>\<open>notes.filter(item => item?.content?.toLowerCase().includes(search.toLowerCase()))\<close>\<close>

definition filteredNotes :: "runtime \<Rightarrow> jsstring \<Rightarrow> note_doc list \<Rightarrow> note_doc list" where
  "filteredNotes rt search notes =
     filter (\<lambda>item. case content item of
                      None \<Rightarrow> False
                    | Some c \<Rightarrow> includes_str (toLowerCase rt c) (toLowerCase rt search))
            notes"

text \<open>The comparator of \<open>displayNotes\<close>.\<close>

definition pinned_comparator :: "note_doc \<Rightarrow> note_doc \<Rightarrow> int" where
  "pinned_comparator a b =
     (let aPinned = (if pinned a then 1 else 0);
          bPinned = (if pinned b then 1 else 0)
      in if bPinned \<noteq> aPinned then bPinned - aPinned else 0)"

text \<open>
  \<open>Array.prototype.sort(comparefn)\<close>. The language requires the sort to be stable and,
  for a consistent comparator, to return the permutation ordered by it; there is only
  one such list, whatever algorithm the engine runs. The model computes it by
  insertion: an element goes in front of the first later element that it does not
  have to follow.
\<close>

fun insert_by :: "('a \<Rightarrow> 'a \<Rightarrow> int) \<Rightarrow> 'a \<Rightarrow> 'a list \<Rightarrow> 'a list" where
  "insert_by cmp x [] = [x]"
| "insert_by cmp x (y # ys) = (if cmp x y \<le> 0 then x # y # ys else y # insert_by cmp x ys)"

definition js_sort :: "('a \<Rightarrow> 'a \<Rightarrow> int) \<Rightarrow> 'a list \<Rightarrow> 'a list" where
  "js_sort cmp xs = foldr (insert_by cmp) xs []"

definition displayNotes :: "runtime \<Rightarrow> jsstring \<Rightarrow> note_doc list \<Rightarrow> note_doc list" where
  "displayNotes rt search notes = js_sort pinned_comparator (filteredNotes rt search notes)"

text \<open>Newest first.\<close>

definition newest_first :: "note_doc list \<Rightarrow> bool" where
  "newest_first ns = sorted_wrt (\<lambda>a b. createdAt a \<ge> createdAt b) ns"

section \<open>The location screen (app/locationshare.tsx)\<close>

definition SAVED_KEY :: jsstring where
  "SAVED_KEY = js ''@saved_locations_v2''"

text \<open>
  \<open>location\<close> is \<open>null\<close> or latitude, longitude and timestamp; \<open>savedLocations\<close> is the
  persisted list. \<open>uid\<close> is the function of the same text as on the SOS screen.
\<close>

record location_share = world +
  location :: "(real \<times> real \<times> real) option"
  address :: "jsstring option"
  savedLocations :: "json list"

definition saveLocation :: "runtime \<Rightarrow> jsstring \<Rightarrow> real \<Rightarrow> location_share \<Rightarrow> location_share" where
  "saveLocation rt rnd now w =
     (case location w of
        None \<Rightarrow>
          emit (Alert (js ''No location'') (Some (js ''Please fetch current location first.'')) []) w
      | Some (latitude, longitude, timestamp) \<Rightarrow>
          (let record = JObj [(js ''id'', JStr (uid rnd (js ''loc-''))),
                              (js ''latitude'', JNum latitude),
                              (js ''longitude'', JNum longitude),
                              (js ''address'', if truthy (address w) then JStr (the (address w)) else JNull),
                              (js ''savedAt'', JNum now)];
               next = record # savedLocations w;
               w1 = w\<lparr>savedLocations := next\<rparr>;
               text = JSON_stringify rt (JArr next);
               w2 = emit (Storage (SetItem SAVED_KEY text)) w1
           in case setItem (storage w2) SAVED_KEY text of
                Inr st \<Rightarrow>
                  emit (Alert (js ''Saved'') (Some (js ''Location saved to vault.'')) [])
                    (w2\<lparr>storage := st\<rparr>)
              | Inl err \<Rightarrow>
                  emit (Alert (js ''Error'') (Some (js ''Could not save location.'')) [])
                    (emit (ConsoleWarn (js ''Save failed'')) w2)))"

section \<open>The hidden area (app/hiddenfeature.tsx)\<close>

definition STEALTH_RECORDINGS_KEY :: jsstring where
  "STEALTH_RECORDINGS_KEY = js ''stealthRecordings''"

record hidden_feature = world +
  recordingsCount :: nat

text \<open>The object that \<open>saveRecordingUri\<close> pushes: \<open>{ uri, createdAt }\<close>.\<close>

definition recording_entry :: "jsstring \<Rightarrow> jsstring \<Rightarrow> json" where
  "recording_entry uri nowIso = JObj [(js ''uri'', JStr uri), (js ''createdAt'', JStr nowIso)]"

text \<open>\<open>Array.isArray(list) ? list : []\<close>\<close>

fun array_or_empty :: "json \<Rightarrow> json list" where
  "array_or_empty (JArr xs) = xs"
| "array_or_empty _ = []"

text \<open>
  \<open>saveRecordingUri(uri)\<close>, with \<open>new Date().toISOString()\<close> as \<open>nowIso\<close>. The whole body
  is one \<open>try\<close> whose \<open>catch\<close> does nothing.
\<close>

definition saveRecordingUri :: "runtime \<Rightarrow> jsstring \<Rightarrow> jsstring option \<Rightarrow> hidden_feature \<Rightarrow> hidden_feature" where
  "saveRecordingUri rt nowIso uri w =
     (if \<not> truthy uri then w
      else
        (let w1 = emit (Storage (GetItem STEALTH_RECORDINGS_KEY)) w
         in case getItem (storage w1) STEALTH_RECORDINGS_KEY of
              Inl e \<Rightarrow> w1
            | Inr existing \<Rightarrow>
                (case (if truthy existing then JSON_parse rt (the existing) else Inr (JArr [])) of
                   Inl e \<Rightarrow> w1
                 | Inr list \<Rightarrow>
                     (let updated = array_or_empty list @ [recording_entry (the uri) nowIso];
                          text = JSON_stringify rt (JArr updated);
                          w2 = emit (Storage (SetItem STEALTH_RECORDINGS_KEY text)) w1
                      in case setItem (storage w2) STEALTH_RECORDINGS_KEY text of
                           Inl e \<Rightarrow> w2
                         | Inr st \<Rightarrow> w2\<lparr>storage := st, recordingsCount := length updated\<rparr>))))"

section \<open>The SOS screen: SMS with location\<close>







section \<open>The helpline screen (app/helpline.tsx)\<close>

text \<open>\<open>type Item = { id; name; number }\<close>\<close>

record item =
  item_id :: jsstring
  item_name :: jsstring
  item_number :: jsstring








section \<open>Sample inputs\<close>

text \<open>
  A runtime with stand-ins for the built-ins, on which the model is evaluated at sample
  inputs. No property of the program is derived from what the stand-ins compute. The
  stand-in for \<open>JSON.stringify\<close> prints the structure of a value: property names and
  strings as they are, without quotes, and \<open>#\<close> for a number.
\<close>

primrec show_json :: "json \<Rightarrow> jsstring" where
  "show_json JNull = js ''null''"
| "show_json (JBool b) = (if b then js ''true'' else js ''false'')"
| "show_json (JNum r) = js ''#''"
| "show_json (JStr s) = s"
| "show_json (JArr xs) = js ''['' @ concat (map (\<lambda>x. show_json x @ js '','') xs) @ js '']''"
| "show_json (JObj kvs) =
     js ''{'' @
     concat (map (\<lambda>kv. fst kv @ js '':'' @ snd kv @ js '','') (map (map_prod id show_json) kvs)) @
     js ''}''"

definition sample_runtime :: runtime where
  "sample_runtime =
     \<lparr>toLowerCase = map (\<lambda>c. if 0x41 \<le> c \<and> c \<le> 0x5A then c + 0x20 else c),
      JSON_stringify = show_json,
      JSON_stringify_indented = show_json,
      JSON_parse = (\<lambda>s. Inr (JArr [])), Number_toString = (\<lambda>r. js ''0''),
      encodeURIComponent = (\<lambda>s. Inr s)\<rparr>"


definition empty_storage :: async_storage where
  "empty_storage = \<lparr>items = Map.empty, failure = None\<rparr>"






section \<open>Calculator: facts about one key press\<close>

lemma expression_emit [simp]: "expression (emit e w) = expression w"
  by (simp add: emit_def)
lemma storage_emit [simp]: "storage (emit e w) = storage w"
  by (simp add: emit_def)
lemma trace_emit [simp]: "trace (emit e w) = trace w @ [e]"
  by (simp add: emit_def)

lemma expression_handlePress:
  "val \<noteq> js ''='' \<Longrightarrow>
   expression (handlePress ev val w) =
     (if val = js ''C'' then butlast (expression w) else newExp (expression w) val)"
  by (simp add: handlePress_def Let_def split: sum.splits option.splits)

lemma adjacent_operators_snoc:
  "adjacent_operators (s @ [c]) \<longleftrightarrow>
     adjacent_operators s \<or> (s \<noteq> [] \<and> is_operator_char (last s) \<and> is_operator_char c)"
  by (induction s rule: adjacent_operators.induct) auto

lemma adjacent_operators_butlast:
  "adjacent_operators (butlast s) \<Longrightarrow> adjacent_operators s"
proof (cases "s = []")
  case False
  assume a: "adjacent_operators (butlast s)"
  from False have "s = butlast s @ [last s]" by simp
  then have "adjacent_operators s = adjacent_operators (butlast s @ [last s])" by simp
  with a show ?thesis by (simp only: adjacent_operators_snoc) simp
qed simp

lemma slice_last_operator:
  "slice_last e \<in> set operators \<longleftrightarrow> e \<noteq> [] \<and> is_operator_char (last e)"
  by (simp add: slice_last_def is_operator_char_def) (simp add: operators_def js_def)

lemma no_adjacent_before_last:
  assumes "\<not> adjacent_operators e" "e \<noteq> []" "is_operator_char (last e)" "butlast e \<noteq> []"
  shows "\<not> is_operator_char (last (butlast e))"
proof -
  from assms(2) have "e = butlast e @ [last e]" by simp
  then have "adjacent_operators e = adjacent_operators (butlast e @ [last e])" by simp
  with assms show ?thesis by (simp only: adjacent_operators_snoc) simp
qed

lemma newExp_no_adjacent:
  assumes "\<not> adjacent_operators e"
  shows "\<not> adjacent_operators (newExp e [c])"
proof (cases "[c] \<in> set operators \<and> slice_last e \<in> set operators")
  case True
  then have e: "e \<noteq> []" "is_operator_char (last e)" by (simp_all add: slice_last_operator)
  have "\<not> adjacent_operators (butlast e)" using assms adjacent_operators_butlast by blast
  moreover have "butlast e \<noteq> [] \<Longrightarrow> \<not> is_operator_char (last (butlast e))"
    using no_adjacent_before_last [OF assms e] .
  ultimately show ?thesis using True by (auto simp: newExp_def adjacent_operators_snoc)
next
  case False
  then show ?thesis using assms
    by (auto simp: newExp_def adjacent_operators_snoc slice_last_operator is_operator_char_def)
qed

lemma button_single: "val \<in> set buttons \<Longrightarrow> \<exists>c. val = [c]"
  by (auto simp: buttons_def js_def)

lemma handlePress_no_adjacent:
  assumes "val \<in> set buttons" "val \<noteq> js ''=''" "\<not> adjacent_operators (expression w)"
  shows "\<not> adjacent_operators (expression (handlePress ev val w))"
proof -
  obtain c where c: "val = [c]" using button_single [OF assms(1)] by blast
  show ?thesis
    using assms(2,3) adjacent_operators_butlast newExp_no_adjacent
    by (auto simp: expression_handlePress c)
qed

lemma presses_no_adjacent:
  "set vals \<subseteq> set buttons - {js ''=''} \<Longrightarrow> \<not> adjacent_operators (expression w) \<Longrightarrow>
   \<not> adjacent_operators (expression (presses ev vals w))"
  unfolding presses_def
  by (induction vals arbitrary: w) (auto simp: handlePress_no_adjacent)

lemma handlePress_reset:
  assumes "val \<noteq> js ''=''" "val \<noteq> js ''C''"
    and "onlyDigits (newExp (expression w) val) = js ''000000''"
    and "failure (storage w) = None"
  shows "handlePress ev val w =
           w\<lparr>expression := newExp (expression w) val, input := newExp (expression w) val,
              storage := (storage w)\<lparr>items := (items (storage w))(js ''userPin'' := None)\<rparr>,
              trace := trace w @ [Haptic, Storage (RemoveItem (js ''userPin'')),
                                  Alert (js ''PIN Reset'') (Some (js ''Register new PIN'')) [],
                                  RouterReplace (js ''/register'')]\<rparr>"
proof -
  have len: "length (js ''000000'') = 6" by (simp add: js_def)
  show ?thesis using assms len
    by (simp add: handlePress_def Let_def removeItem_def emit_def)
qed





lemma presses_snoc: "presses ev (vals @ [v]) w = handlePress ev v (presses ev vals w)"
  by (simp add: presses_def)



section \<open>Calculator: the unlock flow\<close>



lemma presses_zeros:
  assumes "failure st = None"
  shows "presses ev (keys_of (js ''000000'')) (initial_calculator st) =
           \<lparr>storage = st\<lparr>items := (items st)(js ''userPin'' := None)\<rparr>,
            trace = [Haptic, Haptic, Haptic, Haptic, Haptic, Haptic,
               Storage (RemoveItem (js ''userPin'')),
               Alert (js ''PIN Reset'') (Some (js ''Register new PIN'')) [],
               RouterReplace (js ''/register'')],
            expression = js ''000000'', input = js ''000000''\<rparr>"
  using assms
  by (simp add: presses_def keys_of_def initial_calculator_def handlePress_def newExp_def
      onlyDigits_def is_digit_def operators_def slice_last_def removeItem_def emit_def js_def Let_def)

text \<open>
  C2. When the digits of the expression a key press produces are exactly \<open>000000\<close>,
  \<open>handlePress\<close> removes the key \<open>userPin\<close> from the storage, shows the reset alert and
  replaces the screen by \<open>/register\<close>, whatever the storage holds under \<open>userPin\<close>
  (\<open>items\<close> is arbitrary, the key may be absent). The press is one that accumulates: a
  key other than \<open>=\<close> and \<open>C\<close>, and the storage call resolves. In particular typing
  \<open>000000\<close> on the empty calculator does so.
\<close>

theorem reset_pin_clears_and_registers:
  assumes "failure (storage w) = None" and "failure st = None"
  shows
    "(val \<noteq> js ''='' \<and> val \<noteq> js ''C'' \<and>
        onlyDigits (newExp (expression w) val) = js ''000000'' \<longrightarrow>
        items (storage (handlePress ev val w)) = (items (storage w))(js ''userPin'' := None) \<and>
        trace (handlePress ev val w) =
          trace w @ [Haptic, Storage (RemoveItem (js ''userPin'')),
                     Alert (js ''PIN Reset'') (Some (js ''Register new PIN'')) [],
                     RouterReplace (js ''/register'')]) \<and>
     items (storage (presses ev (keys_of (js ''000000'')) (initial_calculator st))) (js ''userPin'') = None \<and>
     navigations (trace (presses ev (keys_of (js ''000000'')) (initial_calculator st))) = [js ''/register'']"
proof (intro conjI impI)
  assume a: "val \<noteq> js ''='' \<and> val \<noteq> js ''C'' \<and> onlyDigits (newExp (expression w) val) = js ''000000''"
  have h: "handlePress ev val w =
           w\<lparr>expression := newExp (expression w) val, input := newExp (expression w) val,
              storage := (storage w)\<lparr>items := (items (storage w))(js ''userPin'' := None)\<rparr>,
              trace := trace w @ [Haptic, Storage (RemoveItem (js ''userPin'')),
                                  Alert (js ''PIN Reset'') (Some (js ''Register new PIN'')) [],
                                  RouterReplace (js ''/register'')]\<rparr>"
    using a assms(1) by (intro handlePress_reset) simp_all
  show "items (storage (handlePress ev val w)) = (items (storage w))(js ''userPin'' := None)"
    by (subst h) simp
  show "trace (handlePress ev val w) =
          trace w @ [Haptic, Storage (RemoveItem (js ''userPin'')),
                     Alert (js ''PIN Reset'') (Some (js ''Register new PIN'')) [],
                     RouterReplace (js ''/register'')]"
    by (subst h) simp
next
  show "items (storage (presses ev (keys_of (js ''000000'')) (initial_calculator st))) (js ''userPin'') = None"
    by (simp add: presses_zeros [OF assms(2)])
  show "navigations (trace (presses ev (keys_of (js ''000000'')) (initial_calculator st))) = [js ''/register'']"
    by (simp add: presses_zeros [OF assms(2)])
qed

theorem reset_pin_clears_and_registers_witness:
  "failure \<lparr>items = [js ''userPin'' \<mapsto> js ''123456''], failure = None\<rparr> = None \<and>
   js ''0'' \<noteq> js ''='' \<and> js ''0'' \<noteq> js ''C'' \<and>
   onlyDigits (newExp (js ''0+0000'') (js ''0'')) = js ''000000'' \<and>
   items (storage (handlePress (\<lambda>e. Inl (JsError e)) (js ''0'')
      \<lparr>storage = \<lparr>items = [js ''userPin'' \<mapsto> js ''123456''], failure = None\<rparr>, trace = [],
       expression = js ''0+0000'', input = js ''0+0000''\<rparr>))
     (js ''userPin'') = None \<and>
   navigations (trace (presses (\<lambda>e. Inl (JsError e)) (keys_of (js ''000000''))
      (initial_calculator \<lparr>items = [js ''userPin'' \<mapsto> js ''123456''], failure = None\<rparr>))) = [js ''/register'']"
  using reset_pin_clears_and_registers
    [where w = "\<lparr>storage = \<lparr>items = [js ''userPin'' \<mapsto> js ''123456''], failure = None\<rparr>, trace = [],
         expression = js ''0+0000'', input = js ''0+0000''\<rparr>"
       and st = "\<lparr>items = [js ''userPin'' \<mapsto> js ''123456''], failure = None\<rparr>"
       and val = "js ''0''" and ev = "\<lambda>e. Inl (JsError e)"]
  by (simp add: js_def onlyDigits_def is_digit_def newExp_def operators_def slice_last_def)




text \<open>
  C9. Starting from the empty expression, after any sequence of presses of keys of the
  pad other than \<open>=\<close>, no two neighbouring characters of the expression are both
  operator characters; and a press of an operator while the expression ends in an
  operator replaces that last character instead of appending.
\<close>

theorem never_two_adjacent_operators:
  "(set vals \<subseteq> set buttons - {js ''=''} \<longrightarrow>
      \<not> adjacent_operators (expression (presses ev vals (initial_calculator st)))) \<and>
   (val \<in> set operators \<and> slice_last (expression w) \<in> set operators \<longrightarrow>
      expression (handlePress ev val w) = butlast (expression w) @ val)"
proof (intro conjI impI)
  assume "set vals \<subseteq> set buttons - {js ''=''}"
  then show "\<not> adjacent_operators (expression (presses ev vals (initial_calculator st)))"
    by (rule presses_no_adjacent) (simp add: initial_calculator_def)
next
  assume a: "val \<in> set operators \<and> slice_last (expression w) \<in> set operators"
  then have "val \<noteq> js ''=''" "val \<noteq> js ''C''" by (auto simp: operators_def js_def)
  then show "expression (handlePress ev val w) = butlast (expression w) @ val"
    using a by (simp add: expression_handlePress newExp_def)
qed

theorem never_two_adjacent_operators_witness:
  "set [js ''1'', js ''+'', [0xD7], js ''2'', js ''C'', [0x2212], js ''+''] \<subseteq> set buttons - {js ''=''} \<and>
   \<not> adjacent_operators (expression (presses (\<lambda>e. Inl (JsError e))
        [js ''1'', js ''+'', [0xD7], js ''2'', js ''C'', [0x2212], js ''+'']
        (initial_calculator \<lparr>items = Map.empty, failure = None\<rparr>))) \<and>
   [0xD7] \<in> set operators \<and> slice_last (js ''1+'') \<in> set operators \<and>
   expression (handlePress (\<lambda>e. Inl (JsError e)) [0xD7]
      \<lparr>storage = \<lparr>items = Map.empty, failure = None\<rparr>, trace = [],
       expression = js ''1+'', input = js ''1+''\<rparr>) = [0x31, 0xD7]"
  using never_two_adjacent_operators
    [where vals = "[js ''1'', js ''+'', [0xD7], js ''2'', js ''C'', [0x2212], js ''+'']"
       and ev = "\<lambda>e. Inl (JsError e)" and st = "\<lparr>items = Map.empty, failure = None\<rparr>"
       and val = "[0xD7]"
       and w = "\<lparr>storage = \<lparr>items = Map.empty, failure = None\<rparr>, trace = [],
         expression = js ''1+'', input = js ''1+''\<rparr>"]
  by (simp add: buttons_def operators_def slice_last_def js_def)

section \<open>Registration: a write happens exactly on valid input\<close>

lemma digit_not_whitespace: "is_digit c \<Longrightarrow> \<not> is_whitespace c"
  unfolding is_digit_def is_whitespace_def by (auto simp: word_le_nat_alt)

lemma trim_digits:
  assumes "list_all is_digit s"
  shows "trim s = s"
proof (cases s)
  case Nil
  then show ?thesis by (simp add: trim_def)
next
  case (Cons c t)
  with assms have "\<not> is_whitespace (hd s)" by (simp add: digit_not_whitespace)
  then have a: "dropWhile is_whitespace s = s" using Cons by simp
  have "s \<noteq> []" using Cons by simp
  then have "last s \<in> set s" by simp
  with assms have "is_digit (last s)" by (simp add: list_all_iff)
  then have "\<not> is_whitespace (hd (rev s))"
    using \<open>s \<noteq> []\<close> by (simp add: hd_rev digit_not_whitespace)
  then have "dropWhile is_whitespace (rev s) = rev s"
    using \<open>s \<noteq> []\<close> by (cases "rev s") simp_all
  with a show ?thesis by (simp add: trim_def)
qed

lemma digits_not_NaN:
  assumes "list_all is_digit s" "s \<noteq> []"
  shows "\<not> isNaN_Number s"
proof -
  obtain c t where s: "s = c # t" using assms(2) by (cases s) auto
  with assms have c: "is_digit c" by simp
  then have sign: "c \<noteq> 0x2B" "c \<noteq> 0x2D" by (auto simp: is_digit_def)
  have tk: "takeWhile is_digit s = s" "dropWhile is_digit s = []"
    using assms(1) by (simp_all add: list_all_iff)
  have "StrUnsignedDecimalLiteral s"
    unfolding StrUnsignedDecimalLiteral_def using assms(2) by (simp add: tk)
  then have "StrDecimalLiteral s"
    using sign by (simp add: StrDecimalLiteral_def s)
  then show ?thesis
    by (simp add: isNaN_Number_def trim_digits [OF assms(1)])
qed

lemma onPinChange_digits: "list_all is_digit (rawPin (onPinChange text w))"
proof -
  have "set (take 6 (filter is_digit text)) \<subseteq> set (filter is_digit text)"
    by (rule set_take_subset)
  then show ?thesis
    by (auto simp: onPinChange_def onlyDigits_def list_all_iff)
qed

lemma storage_writes_append: "storage_writes (es @ fs) = storage_writes es @ storage_writes fs"
  by (induction es rule: storage_writes.induct) simp_all

lemma alerts_append: "alerts (es @ fs) = alerts es @ alerts fs"
  by (induction es rule: alerts.induct) simp_all

lemma handleRegister_valid:
  assumes "list_all is_digit (rawPin w)"
    and "trim (username w) \<noteq> []" "length (rawPin w) = 6" "rawPin w \<noteq> js ''000000''"
  shows "handleRegister w =
     (case failure (storage w) of
        None \<Rightarrow>
          w\<lparr>storage := (storage w)\<lparr>items := (items (storage w))
                          (js ''userPin'' \<mapsto> rawPin w, js ''isRegistered'' \<mapsto> js ''true'')\<rparr>,
            trace := trace w @
              [Storage (MultiSet [(js ''userPin'', rawPin w), (js ''isRegistered'', js ''true'')]),
               Alert (0x2705 # js '' Success'') (Some (js ''Account created!''))
                 [Button (js ''OK'') (Some (js ''/calculator''))]]\<rparr>
      | Some e \<Rightarrow>
          w\<lparr>trace := trace w @
              [Storage (MultiSet [(js ''userPin'', rawPin w), (js ''isRegistered'', js ''true'')]),
               ConsoleError (js ''Error saving data:''),
               Alert (0x274C # js '' Error'') (Some (js ''Failed to save details. Try again.'')) []]\<rparr>)"
proof -
  have "rawPin w \<noteq> []" using assms(3) by auto
  from digits_not_NaN [OF assms(1) this] assms(2-)
  show ?thesis
    by (simp add: handleRegister_def Let_def multiSet_def emit_def split: option.splits)
qed

lemma handleRegister_invalid:
  assumes "\<not> (trim (username w) \<noteq> [] \<and> length (rawPin w) = 6 \<and> rawPin w \<noteq> js ''000000'')"
  shows "\<exists>t m. handleRegister w = w\<lparr>trace := trace w @ [Alert t (Some m) []]\<rparr>"
  using assms by (auto simp add: handleRegister_def Let_def emit_def)

text \<open>
  C8. The PIN field only ever holds what \<open>onPinChange\<close> stored: digits. On such a state
  \<open>handleRegister\<close> issues a storage write if and only if the trimmed username is not
  empty, the PIN has exactly six digits and the PIN is not \<open>000000\<close>; the write is the
  single \<open>multiSet\<close> of the two keys \<open>userPin\<close> (the PIN) and \<open>isRegistered\<close> (\<open>true\<close>),
  and when it resolves the storage is the old one updated at these two keys. The key
  \<open>username\<close> is never touched. On a validation failure the storage is unchanged, no
  write is issued and exactly one alert is shown.
\<close>

theorem handleRegister_writes_iff_valid:
  "list_all is_digit (rawPin (onPinChange typed w0)) \<and>
   (list_all is_digit (rawPin w) \<longrightarrow>
      storage_writes (trace (handleRegister w)) =
        storage_writes (trace w) @
          (if trim (username w) \<noteq> [] \<and> length (rawPin w) = 6 \<and> rawPin w \<noteq> js ''000000''
           then [MultiSet [(js ''userPin'', rawPin w), (js ''isRegistered'', js ''true'')]]
           else []) \<and>
      (trim (username w) \<noteq> [] \<and> length (rawPin w) = 6 \<and> rawPin w \<noteq> js ''000000'' \<and>
       failure (storage w) = None \<longrightarrow>
         items (storage (handleRegister w)) =
           (items (storage w))(js ''userPin'' \<mapsto> rawPin w, js ''isRegistered'' \<mapsto> js ''true'')) \<and>
      (\<not> (trim (username w) \<noteq> [] \<and> length (rawPin w) = 6 \<and> rawPin w \<noteq> js ''000000'') \<longrightarrow>
         storage (handleRegister w) = storage w \<and>
         length (alerts (trace (handleRegister w))) = length (alerts (trace w)) + 1) \<and>
      items (storage (handleRegister w)) (js ''username'') = items (storage w) (js ''username''))"
proof (intro conjI impI)
  show "list_all is_digit (rawPin (onPinChange typed w0))" by (rule onPinChange_digits)
next
  assume d: "list_all is_digit (rawPin w)"
  show "storage_writes (trace (handleRegister w)) =
        storage_writes (trace w) @
          (if trim (username w) \<noteq> [] \<and> length (rawPin w) = 6 \<and> rawPin w \<noteq> js ''000000''
           then [MultiSet [(js ''userPin'', rawPin w), (js ''isRegistered'', js ''true'')]]
           else [])"
  proof (cases "trim (username w) \<noteq> [] \<and> length (rawPin w) = 6 \<and> rawPin w \<noteq> js ''000000''")
    case True
    then show ?thesis
      using handleRegister_valid [OF d, of ] 
      by (simp add: storage_writes_append split: option.splits)
  next
    case False
    from handleRegister_invalid [OF False] obtain t m where
      "handleRegister w = w\<lparr>trace := trace w @ [Alert t (Some m) []]\<rparr>" by blast
    then show ?thesis using False by (simp add: storage_writes_append)
  qed
next
  assume d: "list_all is_digit (rawPin w)"
    and v: "trim (username w) \<noteq> [] \<and> length (rawPin w) = 6 \<and> rawPin w \<noteq> js ''000000'' \<and>
       failure (storage w) = None"
  then show "items (storage (handleRegister w)) =
           (items (storage w))(js ''userPin'' \<mapsto> rawPin w, js ''isRegistered'' \<mapsto> js ''true'')"
    using handleRegister_valid [OF d] by simp
next
  assume nv: "\<not> (trim (username w) \<noteq> [] \<and> length (rawPin w) = 6 \<and> rawPin w \<noteq> js ''000000'')"
  from handleRegister_invalid [OF nv] obtain t m where
    h: "handleRegister w = w\<lparr>trace := trace w @ [Alert t (Some m) []]\<rparr>" by blast
  show "storage (handleRegister w) = storage w" by (simp add: h)
  show "length (alerts (trace (handleRegister w))) = length (alerts (trace w)) + 1"
    by (simp add: h alerts_append)
next
  assume d: "list_all is_digit (rawPin w)"
  show "items (storage (handleRegister w)) (js ''username'') = items (storage w) (js ''username'')"
  proof (cases "trim (username w) \<noteq> [] \<and> length (rawPin w) = 6 \<and> rawPin w \<noteq> js ''000000''")
    case True
    have "js ''username'' \<noteq> js ''userPin''" "js ''username'' \<noteq> js ''isRegistered''"
      by (simp_all add: js_def)
    then show ?thesis
      using True handleRegister_valid [OF d] by (simp split: option.splits)
  next
    case False
    from handleRegister_invalid [OF False] obtain t m where
      "handleRegister w = w\<lparr>trace := trace w @ [Alert t (Some m) []]\<rparr>" by blast
    then show ?thesis by simp
  qed
qed

theorem handleRegister_writes_iff_valid_witness:
  "list_all is_digit (rawPin (onPinChange (js ''24-68-10 99'')
      \<lparr>storage = empty_storage, trace = [], username = js '' asha '', rawPin = []\<rparr>)) \<and>
   rawPin (onPinChange (js ''24-68-10 99'')
      \<lparr>storage = empty_storage, trace = [], username = js '' asha '', rawPin = []\<rparr>) = js ''246810'' \<and>
   storage_writes (trace (handleRegister
      \<lparr>storage = empty_storage, trace = [], username = js '' asha '', rawPin = js ''246810''\<rparr>)) =
     [MultiSet [(js ''userPin'', js ''246810''), (js ''isRegistered'', js ''true'')]] \<and>
   items (storage (handleRegister
      \<lparr>storage = empty_storage, trace = [], username = js '' asha '', rawPin = js ''246810''\<rparr>))
     (js ''userPin'') = Some (js ''246810'') \<and>
   storage (handleRegister
      \<lparr>storage = empty_storage, trace = [], username = js ''asha'', rawPin = js ''000000''\<rparr>) =
     empty_storage \<and>
   length (alerts (trace (handleRegister
      \<lparr>storage = empty_storage, trace = [], username = js ''asha'', rawPin = js ''000000''\<rparr>))) = 1"
proof -
  have a: "list_all is_digit (js ''246810'')" "list_all is_digit (js ''000000'')"
    by (simp_all add: js_def is_digit_def)
  note valid = handleRegister_writes_iff_valid
    [where w = "\<lparr>storage = empty_storage, trace = [], username = js '' asha '', rawPin = js ''246810''\<rparr>"
       and typed = "js ''24-68-10 99''"
       and ?w0.0 = "\<lparr>storage = empty_storage, trace = [], username = js '' asha '', rawPin = []\<rparr>"]
  note reserved = handleRegister_writes_iff_valid
    [where w = "\<lparr>storage = empty_storage, trace = [], username = js ''asha'', rawPin = js ''000000''\<rparr>",
     THEN conjunct2]
  have p: "rawPin (onPinChange (js ''24-68-10 99'')
      \<lparr>storage = empty_storage, trace = [], username = js '' asha '', rawPin = []\<rparr>) = js ''246810''"
    by (simp add: onPinChange_def onlyDigits_def is_digit_def js_def)
  show ?thesis
    using valid reserved a p
    by (simp add: empty_storage_def) (simp add: js_def trim_def is_whitespace_def)
qed

section \<open>SOS screen: the displayed list\<close>

lemma custom_emit [simp]: "custom (emit e w) = custom w"
  by (simp add: emit_def)

lemma custom_persist [simp]: "custom (persist rt next w) = next"
  by (simp add: persist_def Let_def split: sum.splits)

lemma all_persist [simp]: "all' (persist rt next w) = all' w"
  by (simp add: persist_def Let_def emit_def split: sum.splits)






section \<open>Hidden notes: pinned first, newest first within each group\<close>

lemma insert_by_pinned:
  "pinned x \<Longrightarrow> insert_by pinned_comparator x ys = x # ys"
  by (cases ys) (simp_all add: pinned_comparator_def)

lemma insert_by_unpinned:
  "\<not> pinned x \<Longrightarrow> list_all pinned ps \<Longrightarrow> list_all (\<lambda>n. \<not> pinned n) us \<Longrightarrow>
   insert_by pinned_comparator x (ps @ us) = ps @ x # us"
proof (induction ps)
  case Nil
  then show ?case by (cases us) (simp_all add: pinned_comparator_def)
next
  case (Cons p ps)
  then show ?case by (simp add: pinned_comparator_def)
qed

lemma js_sort_pinned_first:
  "js_sort pinned_comparator xs = filter pinned xs @ filter (\<lambda>n. \<not> pinned n) xs"
proof (induction xs)
  case Nil
  then show ?case by (simp add: js_sort_def)
next
  case (Cons x xs)
  have step: "js_sort pinned_comparator (x # xs) =
        insert_by pinned_comparator x (js_sort pinned_comparator xs)"
    by (simp add: js_sort_def)
  show ?case
  proof (cases "pinned x")
    case True
    then show ?thesis by (simp add: step Cons.IH insert_by_pinned)
  next
    case False
    have "list_all pinned (filter pinned xs)" "list_all (\<lambda>n. \<not> pinned n) (filter (\<lambda>n. \<not> pinned n) xs)"
      by (simp_all add: list_all_iff)
    from insert_by_unpinned [OF False this]
    show ?thesis using False by (simp add: step Cons.IH)
  qed
qed

text \<open>
  C6. The subscription asks for the documents ordered by \<open>createdAt\<close>, descending. The
  comparator of \<open>displayNotes\<close> returns 0 for two notes in the same pinned state, and
  the displayed list is the pinned notes of the filtered list followed by the unpinned
  ones, each group in the order of the filtered list. So when the snapshot is newest
  first, the pinned group and the unpinned group of the displayed list are newest first.
\<close>

theorem displayNotes_pinned_then_newest_first:
  "orderBy_field qRef = js ''createdAt'' \<and> orderBy_direction qRef = Desc \<and>
   (pinned a = pinned b \<longrightarrow> pinned_comparator a b = 0) \<and>
   displayNotes rt search docs =
     filter pinned (filteredNotes rt search docs) @
     filter (\<lambda>n. \<not> pinned n) (filteredNotes rt search docs) \<and>
   (newest_first docs \<longrightarrow>
      newest_first (filter pinned (displayNotes rt search docs)) \<and>
      newest_first (filter (\<lambda>n. \<not> pinned n) (displayNotes rt search docs)))"
proof (intro conjI impI)
  show "orderBy_field qRef = js ''createdAt''" "orderBy_direction qRef = Desc"
    by (simp_all add: qRef_def)
  show "pinned_comparator a b = 0" if "pinned a = pinned b"
    using that by (simp add: pinned_comparator_def)
  show d: "displayNotes rt search docs =
     filter pinned (filteredNotes rt search docs) @
     filter (\<lambda>n. \<not> pinned n) (filteredNotes rt search docs)"
    by (simp add: displayNotes_def js_sort_pinned_first)
  assume "newest_first docs"
  then have f: "newest_first (filteredNotes rt search docs)"
    by (simp add: newest_first_def filteredNotes_def sorted_wrt_filter)
  have p: "filter pinned (displayNotes rt search docs) = filter pinned (filteredNotes rt search docs)"
    by (simp add: d)
  have u: "filter (\<lambda>n. \<not> pinned n) (displayNotes rt search docs) =
           filter (\<lambda>n. \<not> pinned n) (filteredNotes rt search docs)"
    by (simp add: d)
  show "newest_first (filter pinned (displayNotes rt search docs))"
    using f by (simp add: p newest_first_def sorted_wrt_filter)
  show "newest_first (filter (\<lambda>n. \<not> pinned n) (displayNotes rt search docs))"
    using f by (simp add: u newest_first_def sorted_wrt_filter)
qed

theorem displayNotes_pinned_then_newest_first_witness:
  "newest_first
     [\<lparr>note_id = js ''n4'', content = Some (js ''call log''), createdAt = 40, pinned = False\<rparr>,
      \<lparr>note_id = js ''n3'', content = Some (js ''call back''), createdAt = 30, pinned = True\<rparr>,
      \<lparr>note_id = js ''n2'', content = Some (js ''shopping''), createdAt = 20, pinned = True\<rparr>,
      \<lparr>note_id = js ''n1'', content = Some (js ''missed call''), createdAt = 10, pinned = False\<rparr>,
      \<lparr>note_id = js ''n0'', content = None, createdAt = 5, pinned = True\<rparr>] \<and>
   map note_id (displayNotes sample_runtime (js ''call'')
     [\<lparr>note_id = js ''n4'', content = Some (js ''call log''), createdAt = 40, pinned = False\<rparr>,
      \<lparr>note_id = js ''n3'', content = Some (js ''call back''), createdAt = 30, pinned = True\<rparr>,
      \<lparr>note_id = js ''n2'', content = Some (js ''shopping''), createdAt = 20, pinned = True\<rparr>,
      \<lparr>note_id = js ''n1'', content = Some (js ''missed call''), createdAt = 10, pinned = False\<rparr>,
      \<lparr>note_id = js ''n0'', content = None, createdAt = 5, pinned = True\<rparr>]) =
     [js ''n3'', js ''n4'', js ''n1''] \<and>
   newest_first (filter (\<lambda>n. \<not> pinned n) (displayNotes sample_runtime (js ''call'')
     [\<lparr>note_id = js ''n4'', content = Some (js ''call log''), createdAt = 40, pinned = False\<rparr>,
      \<lparr>note_id = js ''n3'', content = Some (js ''call back''), createdAt = 30, pinned = True\<rparr>,
      \<lparr>note_id = js ''n2'', content = Some (js ''shopping''), createdAt = 20, pinned = True\<rparr>,
      \<lparr>note_id = js ''n1'', content = Some (js ''missed call''), createdAt = 10, pinned = False\<rparr>,
      \<lparr>note_id = js ''n0'', content = None, createdAt = 5, pinned = True\<rparr>])) \<and>
   pinned_comparator
     \<lparr>note_id = js ''n3'', content = Some (js ''call back''), createdAt = 30, pinned = True\<rparr>
     \<lparr>note_id = js ''n2'', content = Some (js ''shopping''), createdAt = 20, pinned = True\<rparr> = 0"
proof -
  let ?docs = "[\<lparr>note_id = js ''n4'', content = Some (js ''call log''), createdAt = 40, pinned = False\<rparr>,
      \<lparr>note_id = js ''n3'', content = Some (js ''call back''), createdAt = 30, pinned = True\<rparr>,
      \<lparr>note_id = js ''n2'', content = Some (js ''shopping''), createdAt = 20, pinned = True\<rparr>,
      \<lparr>note_id = js ''n1'', content = Some (js ''missed call''), createdAt = 10, pinned = False\<rparr>,
      \<lparr>note_id = js ''n0'', content = None, createdAt = 5, pinned = True\<rparr>]"
  note t = displayNotes_pinned_then_newest_first
    [where rt = sample_runtime and search = "js ''call''" and docs = ?docs
       and a = "\<lparr>note_id = js ''n3'', content = Some (js ''call back''), createdAt = 30, pinned = True\<rparr>"
       and b = "\<lparr>note_id = js ''n2'', content = Some (js ''shopping''), createdAt = 20, pinned = True\<rparr>"]
  have n: "newest_first ?docs" by (simp add: newest_first_def)
  have d: "map note_id (displayNotes sample_runtime (js ''call'') ?docs) = [js ''n3'', js ''n4'', js ''n1'']"
    using t by (simp add: filteredNotes_def sample_runtime_def js_def)
  have g: "newest_first (filter (\<lambda>n. \<not> pinned n) (displayNotes sample_runtime (js ''call'') ?docs))"
    using t n by blast
  have c: "pinned_comparator
     \<lparr>note_id = js ''n3'', content = Some (js ''call back''), createdAt = 30, pinned = True\<rparr>
     \<lparr>note_id = js ''n2'', content = Some (js ''shopping''), createdAt = 20, pinned = True\<rparr> = 0"
    using t by simp
  show ?thesis using n d g c by blast
qed

section \<open>Media vault: the copy strategies\<close>





lemma copy_succeeded_facts:
  "fst (copy_succeeded ms uri nm d dc es) =
     Inr \<lparr>dest = d, deleted = fst (tryDeleteOriginal ms uri nm), debug_steps = dc\<rparr>"
  "snd (copy_succeeded ms uri nm d dc es) = es @ snd (tryDeleteOriginal ms uri nm)"
  by (simp_all add: copy_succeeded_def Let_def)



section \<open>The persisted lists and the id field\<close>

lemma has_id_contact_json: "has_field (js ''id'') (contact_json c)"
  by (simp add: contact_json_def)

lemma trace_persist:
  "trace (persist rt next w) =
     trace w @ Storage (SetItem STORAGE_KEY (JSON_stringify rt (JArr (map contact_json next)))) #
       (case failure (storage w) of None \<Rightarrow> [] | Some e \<Rightarrow> [ConsoleWarn (js ''Failed to save custom contacts'')])"
  by (simp add: persist_def Let_def emit_def setItem_def split: option.splits)

lemma writes_onSubmitForm:
  "storage_writes (trace (onSubmitForm rt rnd w)) =
     storage_writes (trace w) @
       (if trim (formName w) = [] \<or> \<not> isValidPhone (sanitizeNumber (formNumber w)) then []
        else [SetItem STORAGE_KEY
                (JSON_stringify rt (JArr (map contact_json (custom (onSubmitForm rt rnd w)))))])"
  by (simp add: onSubmitForm_def Let_def trace_persist storage_writes_append emit_def
           split: option.splits)

lemma saveLocation_some:
  assumes "location w = Some (lat, lon, ts)"
  shows "savedLocations (saveLocation rt rnd now w) =
           JObj [(js ''id'', JStr (uid rnd (js ''loc-''))), (js ''latitude'', JNum lat),
                 (js ''longitude'', JNum lon),
                 (js ''address'', if truthy (address w) then JStr (the (address w)) else JNull),
                 (js ''savedAt'', JNum now)] # savedLocations w"
    and "storage_writes (trace (saveLocation rt rnd now w)) =
           storage_writes (trace w) @
             [SetItem SAVED_KEY (JSON_stringify rt (JArr (savedLocations (saveLocation rt rnd now w))))]"
  using assms
  by (simp_all add: saveLocation_def Let_def emit_def setItem_def storage_writes_append
               split: option.splits)

lemma has_id_file_meta: "has_field (js ''id'') (file_meta rnd now nm sz result)"
  by (simp add: file_meta_def)

lemma files_save_failed [simp]: "files (save_failed rt ms uri nm sz mt err w) = files w"
  by (simp add: save_failed_def Let_def emit_def)

lemma writes_save_failed [simp]:
  "storage_writes (trace (save_failed rt ms uri nm sz mt err w)) = storage_writes (trace w)"
  by (simp add: save_failed_def Let_def emit_def storage_writes_append)

lemma writes_scan_pages: "storage_writes (snd (scan_pages ms uri nameHint n after)) = []"
  by (induction n arbitrary: after)
     (simp_all add: Let_def split: sum.splits option.splits)

lemma writes_media_library_delete:
  "storage_writes (snd (media_library_delete ms uri nameHint)) = []"
proof -
  have "storage_writes (snd (scan_pages ms uri nameHint 8 None)) = []"
    by (rule writes_scan_pages)
  then show ?thesis
    by (auto simp: media_library_delete_def storage_writes_append
             split: sum.splits prod.splits scan_exit.splits)
qed

lemma writes_tryDeleteOriginal:
  "storage_writes (snd (tryDeleteOriginal ms uri nameHint)) = []"
  using writes_media_library_delete [of ms uri nameHint]
  by (simp add: tryDeleteOriginal_def Let_def storage_writes_append split: option.splits)

lemma writes_copy:
  "storage_writes (snd (copyToAppStorageAndRemoveOriginal rt ms rnd uri nm dc)) = []"
  by (simp add: copyToAppStorageAndRemoveOriginal_def Let_def copy_succeeded_facts
        storage_writes_append writes_tryDeleteOriginal split: option.splits sum.splits)

lemma handlePickedFile_files:
  "(files (handlePickedFile rt ms rnd1 rnd2 now uri nm sz mt w) = files w \<and>
    storage_writes (trace (handlePickedFile rt ms rnd1 rnd2 now uri nm sz mt w)) = storage_writes (trace w)) \<or>
   (\<exists>result.
      files (handlePickedFile rt ms rnd1 rnd2 now uri nm sz mt w) = file_meta rnd2 now nm sz result # files w \<and>
      storage_writes (trace (handlePickedFile rt ms rnd1 rnd2 now uri nm sz mt w)) =
        storage_writes (trace w) @
          [SetItem FILES_META_KEY (JSON_stringify rt (JArr (file_meta rnd2 now nm sz result # files w)))])"
  by (auto simp add: handlePickedFile_def Let_def emit_def storage_writes_append writes_copy
        split: sum.splits)

lemma saveRecordingUri_appends:
  assumes "truthy uri" "failure (storage w) = None"
    and "(if truthy (items (storage w) STEALTH_RECORDINGS_KEY)
          then JSON_parse rt (the (items (storage w) STEALTH_RECORDINGS_KEY)) else Inr (JArr [])) = Inr list"
  shows "storage_writes (trace (saveRecordingUri rt nowIso uri w)) =
           storage_writes (trace w) @
             [SetItem STEALTH_RECORDINGS_KEY
                (JSON_stringify rt (JArr (array_or_empty list @ [recording_entry (the uri) nowIso])))]"
  using assms
  by (simp add: saveRecordingUri_def Let_def emit_def getItem_def setItem_def storage_writes_append)

lemma recording_entry_fields:
  "\<not> has_field (js ''id'') (recording_entry u t)"
  "has_field (js ''uri'') (recording_entry u t)" "has_field (js ''createdAt'') (recording_entry u t)"
  by (simp_all add: recording_entry_def js_def)

text \<open>
  C4 as stated fails for the stealth recordings: the object that \<open>saveRecordingUri\<close>
  appends and writes has the properties \<open>uri\<close> and \<open>createdAt\<close> and no \<open>id\<close>.
\<close>

theorem recording_without_id_counterexample:
  "storage_writes (trace (saveRecordingUri sample_runtime (js ''2024-05-01T10:00:00.000Z'')
      (Some (js ''file:///cache/rec1.m4a''))
      \<lparr>storage = empty_storage, trace = [], recordingsCount = 0\<rparr>)) =
     [SetItem STEALTH_RECORDINGS_KEY
        (js ''[{uri:file:///cache/rec1.m4a,createdAt:2024-05-01T10:00:00.000Z,},]'')] \<and>
   recording_entry (js ''file:///cache/rec1.m4a'') (js ''2024-05-01T10:00:00.000Z'') =
     JObj [(js ''uri'', JStr (js ''file:///cache/rec1.m4a'')),
           (js ''createdAt'', JStr (js ''2024-05-01T10:00:00.000Z''))] \<and>
   \<not> has_field (js ''id'')
       (recording_entry (js ''file:///cache/rec1.m4a'') (js ''2024-05-01T10:00:00.000Z''))"
  by (simp add: saveRecordingUri_def truthy_def Let_def emit_def getItem_def setItem_def
      empty_storage_def recording_entry_def sample_runtime_def js_def)

text \<open>
  C4, amended. The lists of custom contacts, saved locations and media metadata only
  get objects with an \<open>id\<close> property appended: every contact is written with its
  \<open>id\<close>, and what \<open>onSubmitForm\<close> writes is the list of custom contacts it has set;
  \<open>saveLocation\<close> puts a record with an \<open>id\<close> in front of the saved locations and writes
  that list; \<open>handlePickedFile\<close> either leaves the list of files alone and writes
  nothing, or puts a metadata object with an \<open>id\<close> in front and writes that list. The
  list of stealth recordings is different: what \<open>saveRecordingUri\<close> appends and writes
  is an object with \<open>uri\<close> and \<open>createdAt\<close> and without \<open>id\<close>.
\<close>

theorem appended_records_id_field:
  "has_field (js ''id'') (contact_json c) \<and>
   storage_writes (trace (onSubmitForm rt rnd w)) =
     storage_writes (trace w) @
       (if trim (formName w) = [] \<or> \<not> isValidPhone (sanitizeNumber (formNumber w)) then []
        else [SetItem STORAGE_KEY
                (JSON_stringify rt (JArr (map contact_json (custom (onSubmitForm rt rnd w)))))]) \<and>
   (location l = Some (lat, lon, ts) \<longrightarrow>
      (\<exists>record. has_field (js ''id'') record \<and>
         savedLocations (saveLocation rt rnd now l) = record # savedLocations l \<and>
         storage_writes (trace (saveLocation rt rnd now l)) =
           storage_writes (trace l) @
             [SetItem SAVED_KEY (JSON_stringify rt (JArr (record # savedLocations l)))])) \<and>
   ((files (handlePickedFile rt ms rnd1 rnd2 now uri nm sz mt v) = files v \<and>
     storage_writes (trace (handlePickedFile rt ms rnd1 rnd2 now uri nm sz mt v)) =
       storage_writes (trace v)) \<or>
    (\<exists>meta. has_field (js ''id'') meta \<and>
       files (handlePickedFile rt ms rnd1 rnd2 now uri nm sz mt v) = meta # files v \<and>
       storage_writes (trace (handlePickedFile rt ms rnd1 rnd2 now uri nm sz mt v)) =
         storage_writes (trace v) @
           [SetItem FILES_META_KEY (JSON_stringify rt (JArr (meta # files v)))])) \<and>
   (truthy u \<and> failure (storage h) = None \<and>
    (if truthy (items (storage h) STEALTH_RECORDINGS_KEY)
     then JSON_parse rt (the (items (storage h) STEALTH_RECORDINGS_KEY)) else Inr (JArr [])) = Inr list \<longrightarrow>
      storage_writes (trace (saveRecordingUri rt nowIso u h)) =
        storage_writes (trace h) @
          [SetItem STEALTH_RECORDINGS_KEY
             (JSON_stringify rt (JArr (array_or_empty list @ [recording_entry (the u) nowIso])))] \<and>
      \<not> has_field (js ''id'') (recording_entry (the u) nowIso) \<and>
      has_field (js ''uri'') (recording_entry (the u) nowIso) \<and>
      has_field (js ''createdAt'') (recording_entry (the u) nowIso))"
proof (intro conjI impI)
  show "has_field (js ''id'') (contact_json c)" by (rule has_id_contact_json)
  show "storage_writes (trace (onSubmitForm rt rnd w)) =
     storage_writes (trace w) @
       (if trim (formName w) = [] \<or> \<not> isValidPhone (sanitizeNumber (formNumber w)) then []
        else [SetItem STORAGE_KEY
                (JSON_stringify rt (JArr (map contact_json (custom (onSubmitForm rt rnd w)))))])"
    by (rule writes_onSubmitForm)
  show "\<exists>record. has_field (js ''id'') record \<and>
         savedLocations (saveLocation rt rnd now l) = record # savedLocations l \<and>
         storage_writes (trace (saveLocation rt rnd now l)) =
           storage_writes (trace l) @
             [SetItem SAVED_KEY (JSON_stringify rt (JArr (record # savedLocations l)))]"
    if "location l = Some (lat, lon, ts)"
    using saveLocation_some [OF that, of rt rnd now] by (intro exI conjI) (auto simp: js_def)
  show "(files (handlePickedFile rt ms rnd1 rnd2 now uri nm sz mt v) = files v \<and>
     storage_writes (trace (handlePickedFile rt ms rnd1 rnd2 now uri nm sz mt v)) =
       storage_writes (trace v)) \<or>
    (\<exists>meta. has_field (js ''id'') meta \<and>
       files (handlePickedFile rt ms rnd1 rnd2 now uri nm sz mt v) = meta # files v \<and>
       storage_writes (trace (handlePickedFile rt ms rnd1 rnd2 now uri nm sz mt v)) =
         storage_writes (trace v) @
           [SetItem FILES_META_KEY (JSON_stringify rt (JArr (meta # files v)))])"
    using handlePickedFile_files [of rt ms rnd1 rnd2 now uri nm sz mt v] has_id_file_meta
    by blast
next
  assume a: "truthy u \<and> failure (storage h) = None \<and>
    (if truthy (items (storage h) STEALTH_RECORDINGS_KEY)
     then JSON_parse rt (the (items (storage h) STEALTH_RECORDINGS_KEY)) else Inr (JArr [])) = Inr list"
  show "storage_writes (trace (saveRecordingUri rt nowIso u h)) =
        storage_writes (trace h) @
          [SetItem STEALTH_RECORDINGS_KEY
             (JSON_stringify rt (JArr (array_or_empty list @ [recording_entry (the u) nowIso])))]"
    using a by (intro saveRecordingUri_appends) simp_all
  show "\<not> has_field (js ''id'') (recording_entry (the u) nowIso)"
    "has_field (js ''uri'') (recording_entry (the u) nowIso)"
    "has_field (js ''createdAt'') (recording_entry (the u) nowIso)"
    by (rule recording_entry_fields)+
qed

theorem appended_records_id_field_witness:
  "location \<lparr>storage = empty_storage, trace = [],
             location = Some (12.9716, 77.5946, 1714557600000), address = None,
             savedLocations = []\<rparr> = Some (12.9716, 77.5946, 1714557600000) \<and>
   list_all (has_field (js ''id''))
     (savedLocations (saveLocation sample_runtime (js ''0.k3j9x2ab71'') 1714557601000
        \<lparr>storage = empty_storage, trace = [],
          location = Some (12.9716, 77.5946, 1714557600000), address = None,
          savedLocations = []\<rparr>)) \<and>
   truthy (Some (js ''file:///cache/rec1.m4a'')) \<and>
   storage_writes (trace (saveRecordingUri sample_runtime (js ''2024-05-01T10:00:00.000Z'')
      (Some (js ''file:///cache/rec1.m4a''))
      \<lparr>storage = empty_storage, trace = [], recordingsCount = 0\<rparr>)) =
     [SetItem STEALTH_RECORDINGS_KEY
        (JSON_stringify sample_runtime
           (JArr [recording_entry (js ''file:///cache/rec1.m4a'') (js ''2024-05-01T10:00:00.000Z'')]))]"
proof -
  let ?l = "\<lparr>storage = empty_storage, trace = [],
             location = Some (12.9716, 77.5946, 1714557600000), address = None,
             savedLocations = []\<rparr>"
  let ?h = "\<lparr>storage = empty_storage, trace = [], recordingsCount = 0\<rparr>"
  note t = appended_records_id_field
    [where l = ?l and lat = "12.9716" and lon = "77.5946" and ts = "1714557600000"
       and rt = sample_runtime and rnd = "js ''0.k3j9x2ab71''" and now = "1714557601000"
       and u = "Some (js ''file:///cache/rec1.m4a'')" and nowIso = "js ''2024-05-01T10:00:00.000Z''"
       and h = ?h and list = "JArr []"]
  have l: "location ?l = Some (12.9716, 77.5946, 1714557600000)" by simp
  from t [THEN conjunct2, THEN conjunct2, THEN conjunct1, THEN mp, OF l]
  obtain r0 where "has_field (js ''id'') r0"
    "savedLocations (saveLocation sample_runtime (js ''0.k3j9x2ab71'') 1714557601000 ?l) =
       r0 # savedLocations ?l"
    by blast
  then have a: "list_all (has_field (js ''id''))
     (savedLocations (saveLocation sample_runtime (js ''0.k3j9x2ab71'') 1714557601000 ?l))"
    by simp
  have u: "truthy (Some (js ''file:///cache/rec1.m4a''))" by (simp add: truthy_def js_def)
  have "truthy (Some (js ''file:///cache/rec1.m4a'')) \<and> failure (storage ?h) = None \<and>
    (if truthy (items (storage ?h) STEALTH_RECORDINGS_KEY)
     then JSON_parse sample_runtime (the (items (storage ?h) STEALTH_RECORDINGS_KEY))
     else Inr (JArr [])) = Inr (JArr [])"
    using u by (simp add: empty_storage_def truthy_def)
  from t [THEN conjunct2, THEN conjunct2, THEN conjunct2, THEN conjunct2, THEN mp, OF this]
  have b: "storage_writes (trace (saveRecordingUri sample_runtime (js ''2024-05-01T10:00:00.000Z'')
      (Some (js ''file:///cache/rec1.m4a'')) ?h)) =
     [SetItem STEALTH_RECORDINGS_KEY
        (JSON_stringify sample_runtime
           (JArr [recording_entry (js ''file:///cache/rec1.m4a'') (js ''2024-05-01T10:00:00.000Z'')]))]"
    by simp
  show ?thesis using l a u b by simp
qed

section \<open>Caught errors: what is logged, what is shown, what goes on\<close>












section \<open>Sequential calls, and the one race\<close>



















end
